theory Spec2Isabelle
  imports Complex_Main "HOL-Library.Sublist" "HOL-Library.List_Lexorder"
begin

section \<open>The messaging side of the WiFi mesh application\<close>

text \<open>
  The source is \<^verbatim>\<open>src/app.py\<close>: the application class \<^verbatim>\<open>WiFiMeshApp\<close>, the message
  class \<^verbatim>\<open>TextMessage\<close>, the \<^verbatim>\<open>MessageManager\<close> and the two widgets. Python objects
  are mutable and are handed to methods by reference, so a method is modelled as a
  function from the objects it is handed to the state of these objects after the call
  (paired with the value it returns, when it returns one). Wall-clock readings
  (\<^verbatim>\<open>time.time()\<close>) are seconds and become a parameter \<open>now\<close>. The file gathers three
  modules and leaves out some of their imports (\<^verbatim>\<open>time\<close>, \<^verbatim>\<open>Union\<close>, \<^verbatim>\<open>QtCore\<close>,
  \<^verbatim>\<open>QtWidgets\<close>); these names are read as the standard ones. Python names that begin
  with an underscore lose it (\<^verbatim>\<open>_send_message\<close> is \<open>send_message\<close>).
\<close>

subsection \<open>Configuration\<close>

record AppConfig =
  wifi_scan_interval :: real
  message_retention_days :: int
  max_concurrent_messages :: int

text \<open>The defaults of the dataclass.\<close>

definition AppConfig_default :: AppConfig where
  "AppConfig_default =
     \<lparr>wifi_scan_interval = 5, message_retention_days = 7, max_concurrent_messages = 10\<rparr>"

subsection \<open>Messages\<close>

record TextMessage =
  timestamp :: real
  sender :: string
  content :: string
  recipient :: "string option"

text \<open>\<^verbatim>\<open>TextMessage.__init__\<close>; a recipient of \<open>None\<close> means broadcast.\<close>

definition TextMessage_init :: "real \<Rightarrow> string \<Rightarrow> string \<Rightarrow> string option \<Rightarrow> TextMessage" where
  "TextMessage_init now s c r = \<lparr>timestamp = now, sender = s, content = c, recipient = r\<rparr>"

text \<open>
  Python's assignment to an attribute of a \<^verbatim>\<open>TextMessage\<close>, as in
  \<^verbatim>\<open>m.content = v\<close>. The class (\<^verbatim>\<open>app.py\<close> 114-119) is a plain class: it declares no
  \<^verbatim>\<open>__slots__\<close>, no property and no \<^verbatim>\<open>__setattr__\<close>, and it is not a frozen dataclass,
  so the statement raises nothing, rebinds the attribute and leaves the other fields.
\<close>

datatype attribute_assignment =
  SetTimestamp real | SetSender string | SetContent string | SetRecipient "string option"

fun assign_attribute :: "TextMessage \<Rightarrow> attribute_assignment \<Rightarrow> TextMessage" where
  "assign_attribute m (SetTimestamp v) = m\<lparr>timestamp := v\<rparr>"
| "assign_attribute m (SetSender v) = m\<lparr>sender := v\<rparr>"
| "assign_attribute m (SetContent v) = m\<lparr>content := v\<rparr>"
| "assign_attribute m (SetRecipient v) = m\<lparr>recipient := v\<rparr>"

text \<open>
  Modelled from the spec: \<^verbatim>\<open>CommandMessage\<close> is imported by \<^verbatim>\<open>app.py\<close> and defined
  nowhere in the source. The spec gives a command message the common fields of a
  message, an opcode and argument bytes.
\<close>

record CommandMessage =
  cmd_timestamp :: real
  cmd_sender :: string
  cmd_recipient :: "string option"
  opcode :: nat
  arguments :: "nat list"

text \<open>\<^verbatim>\<open>Union[TextMessage, CommandMessage]\<close>.\<close>

datatype message = Text TextMessage | Command CommandMessage

fun message_timestamp :: "message \<Rightarrow> real" where
  "message_timestamp (Text t) = timestamp t"
| "message_timestamp (Command c) = cmd_timestamp c"

fun message_sender :: "message \<Rightarrow> string" where
  "message_sender (Text t) = sender t"
| "message_sender (Command c) = cmd_sender c"

fun message_recipient :: "message \<Rightarrow> string option" where
  "message_recipient (Text t) = recipient t"
| "message_recipient (Command c) = cmd_recipient c"

text \<open>Python's truth value of an \<^verbatim>\<open>Optional[str]\<close>: \<open>None\<close> and the empty string are false.\<close>

fun truthy :: "string option \<Rightarrow> bool" where
  "truthy None = False"
| "truthy (Some s) = (s \<noteq> [])"

subsection \<open>The message manager\<close>

text \<open>
  \<^verbatim>\<open>CryptoManager\<close> is imported from a module that is not part of the source; the only
  attribute the source reads from it is \<^verbatim>\<open>device_id\<close>.
\<close>

record CryptoManager =
  device_id :: string

text \<open>
  Modelled from the spec: the direction of a stored message. \<^verbatim>\<open>MessageStore\<close> is
  constructed by \<^verbatim>\<open>MessageManager.__init__\<close> and defined nowhere in the source, so the
  store and what it holds follow the spec's sections 3 and 4.5.
\<close>

datatype direction = Inbound | Outbound

text \<open>Modelled from the spec: a conversation key is a peer id, or the reserved broadcast key.\<close>

datatype conversation_key = PeerKey string | BroadcastKey

text \<open>
  Modelled from the spec: a stored message is a message with its direction and its
  conversation key.
\<close>

record StoredMessage =
  stored :: message
  direction :: direction
  conversation_key :: conversation_key

text \<open>
  Modelled from the spec: the store maps a conversation key to the ordered sequence of
  the messages stored under it, and carries the retention horizon in days.
\<close>

record MessageStore =
  retention_days :: int
  conversations :: "conversation_key \<rightharpoonup> StoredMessage list"

text \<open>
  Modelled from the spec: \<^verbatim>\<open>MessageStore(retention_days)\<close>, the constructor call of
  \<^verbatim>\<open>MessageManager.__init__\<close>: a store without conversations.
\<close>

definition MessageStore_init :: "int \<Rightarrow> MessageStore" where
  "MessageStore_init days = \<lparr>retention_days = days, conversations = Map.empty\<rparr>"

record MessageManager =
  crypto :: CryptoManager
  messages :: MessageStore

text \<open>\<^verbatim>\<open>MessageManager.__init__(crypto, retention_days)\<close>.\<close>

definition MessageManager_init :: "CryptoManager \<Rightarrow> int \<Rightarrow> MessageManager" where
  "MessageManager_init c days = \<lparr>crypto = c, messages = MessageStore_init days\<rparr>"

text \<open>
  \<^verbatim>\<open>MessageManager.receive\<close>: the body is a docstring and a comment, so the coroutine
  returns \<open>None\<close> and leaves the manager as it was. The result is the returned value and
  the manager after the call.
\<close>

definition receive :: "MessageManager \<Rightarrow> message option \<times> MessageManager" where
  "receive mgr = (None, mgr)"

text \<open>
  \<^verbatim>\<open>MessageManager.queue_message\<close>: again only a docstring (``Encrypt and send
  message'') and a comment. The result is the manager and the message after the call.
\<close>

definition queue_message :: "MessageManager \<Rightarrow> message \<Rightarrow> MessageManager \<times> message" where
  "queue_message mgr m = (mgr, m)"

subsection \<open>The message store\<close>

text \<open>
  Modelled from the spec: the sequence stored under a conversation key; a key that was
  never used has no entries.
\<close>

definition entries :: "MessageStore \<Rightarrow> conversation_key \<Rightarrow> StoredMessage list" where
  "entries st k = (case conversations st k of None \<Rightarrow> [] | Some xs \<Rightarrow> xs)"

text \<open>
  Modelled from the spec: \<^verbatim>\<open>append(StoredMessage)\<close> puts the message at the end of the
  sequence of its conversation key (insertion order is conversation order).
\<close>

definition append_store :: "MessageStore \<Rightarrow> StoredMessage \<Rightarrow> MessageStore" where
  "append_store st sm =
     st\<lparr>conversations :=
          (conversations st)(conversation_key sm \<mapsto> entries st (conversation_key sm) @ [sm])\<rparr>"

text \<open>
  Modelled from the spec: the retention horizon. The store is given
  \<^verbatim>\<open>retention_days\<close> in days and message timestamps are seconds, so the horizon is that
  many days in seconds.
\<close>

definition horizon :: "MessageStore \<Rightarrow> real" where
  "horizon st = real_of_int (retention_days st) * 86400"

text \<open>
  Modelled from the spec: the age of a stored message at time \<open>now\<close>. A stored message
  carries no time of its own, so its age is counted from the timestamp of its message.
\<close>

definition age :: "real \<Rightarrow> StoredMessage \<Rightarrow> real" where
  "age now sm = now - message_timestamp (stored sm)"

text \<open>
  Modelled from the spec: \<^verbatim>\<open>prune(now)\<close> removes the entries older than the retention
  horizon from every conversation, and keeps the others in their order.
\<close>

definition prune :: "MessageStore \<Rightarrow> real \<Rightarrow> MessageStore" where
  "prune st now =
     st\<lparr>conversations :=
          (\<lambda>k. map_option (filter (\<lambda>sm. age now sm \<le> horizon st)) (conversations st k))\<rparr>"

text \<open>Modelled from the spec: the dedicated broadcast view.\<close>

definition broadcast_view :: "MessageStore \<Rightarrow> StoredMessage list" where
  "broadcast_view st = entries st BroadcastKey"

text \<open>
  Modelled from the spec: \<^verbatim>\<open>conversation(peer_id)\<close>. Broadcast messages appear in every
  peer's conversation. The spec does not say how the peer's sequence and the broadcast
  sequence interleave in a conversation; here the peer's entries come first. The
  properties below are about which messages a view holds and about the order within
  one stored sequence, not about the interleaving.
\<close>

definition conversation :: "MessageStore \<Rightarrow> string \<Rightarrow> StoredMessage list" where
  "conversation st p = entries st (PeerKey p) @ entries st BroadcastKey"

text \<open>
  Modelled from the spec: \<^verbatim>\<open>MessageManager.get_conversation\<close>, which
  \<^verbatim>\<open>_show_device_messages\<close> calls and the source does not define; the manager serves
  conversation queries from its store. The result is the view and the manager after
  the call.
\<close>

definition get_conversation :: "MessageManager \<Rightarrow> string \<Rightarrow> StoredMessage list \<times> MessageManager" where
  "get_conversation mgr p = (conversation (messages mgr) p, mgr)"

text \<open>
  Modelled from the spec: the conversation key under which the manager files a message.
  A message without recipient goes under the broadcast key. The spec's scenario files
  an outbound direct message under its recipient; an inbound direct message is filed
  under the peer it came from, its sender.
\<close>

definition key_for :: "direction \<Rightarrow> message \<Rightarrow> conversation_key" where
  "key_for d m =
     (case message_recipient m of
        None \<Rightarrow> BroadcastKey
      | Some x \<Rightarrow> (case d of Outbound \<Rightarrow> PeerKey x | Inbound \<Rightarrow> PeerKey (message_sender m)))"

text \<open>Modelled from the spec: the stored message the manager makes of a message.\<close>

definition stored_message :: "direction \<Rightarrow> message \<Rightarrow> StoredMessage" where
  "stored_message d m = \<lparr>stored = m, direction = d, conversation_key = key_for d m\<rparr>"

text \<open>A stored message lies under the key its addressing gives.\<close>

definition well_keyed :: "StoredMessage \<Rightarrow> bool" where
  "well_keyed sm = (conversation_key sm = key_for (direction sm) (stored sm))"

text \<open>A history of the store: appends and pruning passes, applied in order.\<close>

datatype store_op = Append StoredMessage | Prune real

fun apply_op :: "MessageStore \<Rightarrow> store_op \<Rightarrow> MessageStore" where
  "apply_op st (Append sm) = append_store st sm"
| "apply_op st (Prune now) = prune st now"

definition run_ops :: "MessageStore \<Rightarrow> store_op list \<Rightarrow> MessageStore" where
  "run_ops st ops = foldl apply_op st ops"


text \<open>The appends of a history are of messages filed under their addressing's key.\<close>

fun appends_well_keyed :: "store_op \<Rightarrow> bool" where
  "appends_well_keyed (Append sm) = well_keyed sm"
| "appends_well_keyed (Prune now) = True"


text \<open>
  Two stored messages used as examples: the direct message of the spec's scenario, as
  its sender \<^verbatim>\<open>A1\<close> files it, and a broadcast received from \<^verbatim>\<open>B1\<close>.
\<close>

definition hello :: StoredMessage where
  "hello = stored_message Outbound (Text (TextMessage_init 1000 ''A1'' ''hello'' (Some ''B1'')))"

definition notice :: StoredMessage where
  "notice = stored_message Inbound (Text (TextMessage_init 2000 ''B1'' ''to all'' None))"

text \<open>
  Every entry of the store lies under its own conversation key, and that key is the one
  its addressing gives.
\<close>

definition filed :: "MessageStore \<Rightarrow> bool" where
  "filed st = (\<forall>k. \<forall>sm\<in>set (entries st k). conversation_key sm = k \<and> well_keyed sm)"

subsection \<open>Sessions and the crypto engine\<close>

text \<open>
  The source imports \<^verbatim>\<open>CryptoManager\<close> from a module it does not contain, so the data
  and the operations of the Session Manager and of the Crypto Engine follow the spec's
  sections 3, 4.2 and 4.4. The primitives the spec names without fixing them (the
  Diffie-Hellman agreement, the key-derivation function, the authenticated cipher) are
  parameters of the operations.
\<close>

text \<open>
  Modelled from the spec: keys, secrets, plaintexts, ciphertexts and tags are byte
  strings, each byte a number.
\<close>

type_synonym bytes = "nat list"

text \<open>
  Modelled from the spec: a device identity, its id (the record field \<open>identity_id\<close>)
  and its key pair.
\<close>

record DeviceIdentity =
  identity_id :: string
  public_key :: bytes
  private_key :: bytes

text \<open>Modelled from the spec: the session with one peer.\<close>

record PeerSession =
  peer_id :: string
  shared_secret :: bytes
  created_at :: real
  send_counter :: nat
  recv_high_watermark :: nat

text \<open>
  Modelled from the spec: the nonce is built from the session id and the counter of
  the message.
\<close>

record Nonce =
  nonce_session :: string
  nonce_counter :: nat

text \<open>
  Modelled from the spec: the wire envelope; an addressing of \<open>None\<close> is the broadcast
  marker.
\<close>

record Envelope =
  sender_id :: string
  nonce :: Nonce
  ciphertext :: bytes
  auth_tag :: bytes
  addressing :: "string option"

text \<open>Modelled from the spec: the errors of the Session Manager.\<close>

datatype SessionError = KeyMismatch | Expired

text \<open>Modelled from the spec: the errors of the Crypto Engine.\<close>

datatype CryptoError = AuthenticationFailed | ReplayDetected

text \<open>
  Modelled from the spec: both public keys in a deterministic order, the
  lexicographic one, smaller key first.
\<close>

definition ordered_keys :: "bytes \<Rightarrow> bytes \<Rightarrow> bytes \<times> bytes" where
  "ordered_keys a b = (if a \<le> b then (a, b) else (b, a))"

text \<open>
  Modelled from the spec: the symmetric key an identity derives for a peer. \<open>agree\<close> is
  the key store's agreement (own private key, peer's public key) and \<open>kdf\<close> the
  key-derivation function, seeded with the two public keys in order.
\<close>

definition derive_key ::
  "(bytes \<Rightarrow> bytes \<Rightarrow> bytes) \<Rightarrow> (bytes \<Rightarrow> bytes \<times> bytes \<Rightarrow> bytes) \<Rightarrow> DeviceIdentity \<Rightarrow> bytes \<Rightarrow> bytes" where
  "derive_key agree kdf me peer_key =
     kdf (agree (private_key me) peer_key) (ordered_keys (public_key me) peer_key)"

text \<open>
  Modelled from the spec: the Session Manager caches one session per peer, with the
  public key the peer presented.
\<close>

record SessionManager =
  identity :: DeviceIdentity
  sessions :: "string \<rightharpoonup> bytes \<times> PeerSession"

text \<open>Modelled from the spec: a Session Manager with no session yet.\<close>

definition SessionManager_init :: "DeviceIdentity \<Rightarrow> SessionManager" where
  "SessionManager_init me = \<lparr>identity = me, sessions = Map.empty\<rparr>"

text \<open>
  Modelled from the spec: \<^verbatim>\<open>get_or_create_session(peer_id, peer_public_key)\<close> at time
  \<open>now\<close>. A cached session is returned when the peer presents the cached key; a
  different key invalidates the cached session and raises \<open>KeyMismatch\<close>; otherwise a
  session is derived and cached. The spec leaves the first values of the two counters
  open; they start at zero here. The result is the session or the error, and the
  manager after the call.
\<close>

definition get_or_create_session ::
  "(bytes \<Rightarrow> bytes \<Rightarrow> bytes) \<Rightarrow> (bytes \<Rightarrow> bytes \<times> bytes \<Rightarrow> bytes) \<Rightarrow> SessionManager \<Rightarrow> real \<Rightarrow>
     string \<Rightarrow> bytes \<Rightarrow> (SessionError + PeerSession) \<times> SessionManager" where
  "get_or_create_session agree kdf mgr now peer peer_key =
     (case sessions mgr peer of
        Some (cached_key, s) \<Rightarrow>
          if cached_key = peer_key then (Inr s, mgr)
          else (Inl KeyMismatch, mgr\<lparr>sessions := (sessions mgr)(peer := None)\<rparr>)
      | None \<Rightarrow>
          (let s = \<lparr>peer_id = peer,
                    shared_secret = derive_key agree kdf (identity mgr) peer_key,
                    created_at = now, send_counter = 0, recv_high_watermark = 0\<rparr>
           in (Inr s, mgr\<lparr>sessions := (sessions mgr)(peer \<mapsto> (peer_key, s))\<rparr>)))"

text \<open>
  Every cached session holds the key its manager's identity derives for the cached
  public key.
\<close>

definition cache_sound ::
  "(bytes \<Rightarrow> bytes \<Rightarrow> bytes) \<Rightarrow> (bytes \<Rightarrow> bytes \<times> bytes \<Rightarrow> bytes) \<Rightarrow> SessionManager \<Rightarrow> bool" where
  "cache_sound agree kdf mgr =
     (\<forall>peer k s. sessions mgr peer = Some (k, s) \<longrightarrow>
        shared_secret s = derive_key agree kdf (identity mgr) k)"

text \<open>
  Modelled from the spec: \<^verbatim>\<open>decrypt(session, Envelope)\<close>. \<open>open_aead\<close> is the
  authenticated cipher's opening under the session key, the nonce and the associated
  data (sender and addressing): the plaintext, or \<open>None\<close> when the tag does not verify.
  An envelope whose tag verifies is rejected as a replay unless its counter exceeds the
  session's high watermark; an accepted counter becomes the new watermark. The result
  is the error, or the plaintext with the session after the call.
\<close>

definition decrypt ::
  "(bytes \<Rightarrow> Nonce \<Rightarrow> string \<times> string option \<Rightarrow> bytes \<Rightarrow> bytes \<Rightarrow> bytes option) \<Rightarrow> PeerSession \<Rightarrow>
     Envelope \<Rightarrow> CryptoError + bytes \<times> PeerSession" where
  "decrypt open_aead s e =
     (case open_aead (shared_secret s) (nonce e) (sender_id e, addressing e) (ciphertext e)
             (auth_tag e) of
        None \<Rightarrow> Inl AuthenticationFailed
      | Some plaintext \<Rightarrow>
          if nonce_counter (nonce e) \<le> recv_high_watermark s then Inl ReplayDetected
          else Inr (plaintext, s\<lparr>recv_high_watermark := nonce_counter (nonce e)\<rparr>))"

text \<open>
  Small instances of the three primitives, used in examples only: a Diffie-Hellman
  agreement by powers of two over the naturals, a key derivation that concatenates its
  inputs, and a cipher that leaves the plaintext as it is and uses the key as the tag.
  \<open>alice\<close> and \<open>bob\<close> are two identities with key pairs of this agreement.
\<close>

definition toy_public :: "bytes \<Rightarrow> bytes" where
  "toy_public a = [2 ^ sum_list a]"

definition toy_agree :: "bytes \<Rightarrow> bytes \<Rightarrow> bytes" where
  "toy_agree a k = [sum_list k ^ sum_list a]"

definition toy_kdf :: "bytes \<Rightarrow> bytes \<times> bytes \<Rightarrow> bytes" where
  "toy_kdf z ks = z @ fst ks @ snd ks"

definition toy_open ::
  "bytes \<Rightarrow> Nonce \<Rightarrow> string \<times> string option \<Rightarrow> bytes \<Rightarrow> bytes \<Rightarrow> bytes option" where
  "toy_open k n ad ct tag = (if tag = k then Some ct else None)"

definition alice :: DeviceIdentity where
  "alice = \<lparr>identity_id = ''A1'', public_key = toy_public [3], private_key = [3]\<rparr>"

definition bob :: DeviceIdentity where
  "bob = \<lparr>identity_id = ''B1'', public_key = toy_public [5], private_key = [5]\<rparr>"

subsection \<open>The widgets\<close>

text \<open>
  \<^verbatim>\<open>MapWidget.highlight_communication\<close> calls \<^verbatim>\<open>plot_line\<close> or \<^verbatim>\<open>plot_broadcast\<close>;
  neither is defined in the source, so the widget records the calls.
\<close>

datatype plot_call = PlotLine string string string | PlotBroadcast string

record MapWidget =
  plot_calls :: "plot_call list"

definition highlight_communication :: "MapWidget \<Rightarrow> string \<Rightarrow> string option \<Rightarrow> MapWidget" where
  "highlight_communication w source target =
     (case target of
        Some t \<Rightarrow>
          if truthy target then w\<lparr>plot_calls := plot_calls w @ [PlotLine source t ''green'']\<rparr>
          else w\<lparr>plot_calls := plot_calls w @ [PlotBroadcast source]\<rparr>
      | None \<Rightarrow> w\<lparr>plot_calls := plot_calls w @ [PlotBroadcast source]\<rparr>)"

text \<open>
  \<^verbatim>\<open>MessageWidget\<close> is a \<^verbatim>\<open>QTextEdit\<close>: \<^verbatim>\<open>append\<close> adds a paragraph at the end of
  the document and \<^verbatim>\<open>clear\<close> empties it.
\<close>

record MessageWidget =
  paragraphs :: "string list"

definition append_widget :: "MessageWidget \<Rightarrow> string \<Rightarrow> MessageWidget" where
  "append_widget w s = w\<lparr>paragraphs := paragraphs w @ [s]\<rparr>"

definition clear_widget :: "MessageWidget \<Rightarrow> MessageWidget" where
  "clear_widget w = w\<lparr>paragraphs := []\<rparr>"

text \<open>The local variable \<^verbatim>\<open>prefix\<close> of \<^verbatim>\<open>display_message\<close>.\<close>

definition prefix_of :: "TextMessage \<Rightarrow> string" where
  "prefix_of m = (if truthy (recipient m) then ''[Direct] '' else ''[Broadcast] '')"

text \<open>
  \<^verbatim>\<open>MessageWidget.display_message\<close>: the widget and the message after the call.
\<close>

definition display_message :: "MessageWidget \<Rightarrow> TextMessage \<Rightarrow> MessageWidget \<times> TextMessage" where
  "display_message w m = (append_widget w (prefix_of m @ sender m @ '': '' @ content m), m)"

text \<open>
  \<^verbatim>\<open>MessageWidget.show_conversation\<close>: clear, then one paragraph per message, in order.
\<close>

definition show_conversation ::
  "MessageWidget \<Rightarrow> TextMessage list \<Rightarrow> MessageWidget \<times> TextMessage list" where
  "show_conversation w ms =
     (foldl (\<lambda>w' m. append_widget w' (sender m @ '': '' @ content m)) (clear_widget w) ms, ms)"

subsection \<open>The application\<close>

text \<open>
  The fields of \<^verbatim>\<open>WiFiMeshApp\<close> that the messaging methods read or write. The heat
  mapper, the device tracker and the window are left out: no method below touches them.
\<close>

record WiFiMeshApp =
  config :: AppConfig
  crypto_app :: CryptoManager
  message_manager :: MessageManager
  map_widget :: MapWidget
  message_widget :: MessageWidget

text \<open>
  \<^verbatim>\<open>WiFiMeshApp.__init__\<close>. The crypto manager it constructs comes from the absent
  module and is a parameter.
\<close>

definition WiFiMeshApp_init :: "AppConfig \<Rightarrow> CryptoManager \<Rightarrow> WiFiMeshApp" where
  "WiFiMeshApp_init cfg c =
     \<lparr>config = cfg, crypto_app = c,
      message_manager = MessageManager_init c (message_retention_days cfg),
      map_widget = \<lparr>plot_calls = []\<rparr>,
      message_widget = \<lparr>paragraphs = []\<rparr>\<rparr>"

text \<open>\<^verbatim>\<open>WiFiMeshApp._send_message(text, target)\<close>, called at time \<open>now\<close>.\<close>

definition send_message :: "WiFiMeshApp \<Rightarrow> real \<Rightarrow> string \<Rightarrow> string option \<Rightarrow> WiFiMeshApp" where
  "send_message app now txt target =
     (let msg = TextMessage_init now (device_id (crypto_app app)) txt target;
          mgr = fst (queue_message (message_manager app) (Text msg))
      in app\<lparr>message_manager := mgr,
              map_widget :=
                highlight_communication (map_widget app) (device_id (crypto_app app)) target\<rparr>)"

text \<open>
  One pass through the body of the \<^verbatim>\<open>while True\<close> loop of
  \<^verbatim>\<open>WiFiMeshApp._message_loop\<close>. The method \<^verbatim>\<open>_handle_command\<close> it calls in the second
  branch is defined nowhere in the source and is a parameter.
\<close>

definition message_loop_body ::
  "(WiFiMeshApp \<Rightarrow> CommandMessage \<Rightarrow> WiFiMeshApp) \<Rightarrow> WiFiMeshApp \<Rightarrow> WiFiMeshApp" where
  "message_loop_body handle_command app =
     (let r = receive (message_manager app);
          app' = app\<lparr>message_manager := snd r\<rparr>
      in case fst r of
           Some (Text t) \<Rightarrow>
             app'\<lparr>message_widget := fst (display_message (message_widget app') t)\<rparr>
         | Some (Command c) \<Rightarrow> handle_command app' c
         | None \<Rightarrow> app')"

text \<open>
  The loop has no exit; \<open>message_loop n\<close> is the application after \<open>n\<close> passes.
\<close>

fun message_loop ::
  "nat \<Rightarrow> (WiFiMeshApp \<Rightarrow> CommandMessage \<Rightarrow> WiFiMeshApp) \<Rightarrow> WiFiMeshApp \<Rightarrow> WiFiMeshApp" where
  "message_loop 0 handle_command app = app"
| "message_loop (Suc n) handle_command app =
     message_loop n handle_command (message_loop_body handle_command app)"

text \<open>
  A history of the application: calls of \<^verbatim>\<open>_send_message\<close>, passes of the message
  loop, and calls of the message widget's \<^verbatim>\<open>display_message\<close> and
  \<^verbatim>\<open>show_conversation\<close>, applied in order.
\<close>

datatype app_op =
  Send real string "string option" | LoopPass | Display TextMessage
  | ShowConversation "TextMessage list"

fun apply_app_op ::
  "(WiFiMeshApp \<Rightarrow> CommandMessage \<Rightarrow> WiFiMeshApp) \<Rightarrow> WiFiMeshApp \<Rightarrow> app_op \<Rightarrow> WiFiMeshApp" where
  "apply_app_op h app (Send now txt target) = send_message app now txt target"
| "apply_app_op h app LoopPass = message_loop_body h app"
| "apply_app_op h app (Display t) =
     app\<lparr>message_widget := fst (display_message (message_widget app) t)\<rparr>"
| "apply_app_op h app (ShowConversation ts) =
     app\<lparr>message_widget := fst (show_conversation (message_widget app) ts)\<rparr>"

definition run_app ::
  "(WiFiMeshApp \<Rightarrow> CommandMessage \<Rightarrow> WiFiMeshApp) \<Rightarrow> WiFiMeshApp \<Rightarrow> app_op list \<Rightarrow> WiFiMeshApp" where
  "run_app h app ops = foldl (apply_app_op h) app ops"

text \<open>The messages that the appends of a store history bring in.\<close>

fun appended :: "store_op \<Rightarrow> StoredMessage set" where
  "appended (Append sm) = {sm}"
| "appended (Prune now) = {}"

section \<open>Properties\<close>

subsection \<open>Receiving\<close>

lemma message_loop_body_idle: "message_loop_body h app = app"
  by (simp add: message_loop_body_def receive_def)

text \<open>
  C9: \<^verbatim>\<open>receive\<close> returns \<open>None\<close> and leaves the manager untouched, whatever the manager;
  so after any number of passes of the message loop, and whatever \<^verbatim>\<open>_handle_command\<close>
  would do, the application is exactly as before: nothing was displayed (the display
  branch always adds a paragraph) and no command was handled.
\<close>

theorem receive_returns_none:
  "fst (receive mgr) = None \<and> snd (receive mgr) = mgr
   \<and> message_loop n h app = app
   \<and> paragraphs (message_widget (message_loop n h app)) = paragraphs (message_widget app)
   \<and> length (paragraphs (fst (display_message w t))) = Suc (length (paragraphs w))"
proof -
  have loop: "message_loop n h app = app"
    by (induction n) (simp_all add: message_loop_body_idle)
  show ?thesis
    by (simp add: loop receive_def display_message_def append_widget_def)
qed

subsection \<open>Displaying\<close>

text \<open>
  C10: \<^verbatim>\<open>display_message\<close> adds one paragraph, the prefix followed by the sender, a
  colon and the content. The paragraph starts with \<^verbatim>\<open>[Direct] \<close> exactly when the
  recipient is a non-empty string and with \<^verbatim>\<open>[Broadcast] \<close> exactly when it is \<open>None\<close>
  or the empty string; a message addressed to the empty string is shown as a broadcast.
\<close>

theorem display_message_prefix:
  "(\<exists>line. paragraphs (fst (display_message w m)) = paragraphs w @ [line]
      \<and> (prefix ''[Direct] '' line \<longleftrightarrow> (\<exists>x. recipient m = Some x \<and> x \<noteq> []))
      \<and> (prefix ''[Broadcast] '' line \<longleftrightarrow> (recipient m = None \<or> recipient m = Some []))
      \<and> line = prefix_of m @ sender m @ '': '' @ content m)
   \<and> paragraphs (fst (display_message w (TextMessage_init now s c (Some ''''))))
       = paragraphs w @ [''[Broadcast] '' @ s @ '': '' @ c]"
  by (cases "recipient m")
     (auto simp: display_message_def append_widget_def prefix_of_def TextMessage_init_def)

subsection \<open>Queueing\<close>

text \<open>
  C7: \<^verbatim>\<open>queue_message\<close> keeps nothing of the message it is given. The manager, with its
  store, is as before, and so is the application's manager after \<^verbatim>\<open>_send_message\<close>:
  the message is in no queue and in no conversation, and no error is raised. The
  manager the application builds does not depend on \<^verbatim>\<open>max_concurrent_messages\<close>.
\<close>

theorem queue_message_keeps_nothing:
  "queue_message mgr m = (mgr, m)
   \<and> message_manager (send_message app now txt target) = message_manager app
   \<and> message_manager (WiFiMeshApp_init (cfg\<lparr>max_concurrent_messages := n\<rparr>) c)
       = message_manager (WiFiMeshApp_init cfg c)
   \<and> messages (message_manager (send_message (WiFiMeshApp_init AppConfig_default c) now txt target))
       = MessageStore_init 7"
  by (simp add: queue_message_def send_message_def WiFiMeshApp_init_def AppConfig_default_def
      MessageManager_init_def Let_def)

subsection \<open>The message store\<close>

lemma entries_append:
  "entries (append_store st sm) k
     = (if k = conversation_key sm then entries st k @ [sm] else entries st k)"
  by (simp add: entries_def append_store_def)

lemma entries_prune:
  "entries (prune st now) k = filter (\<lambda>sm. age now sm \<le> horizon st) (entries st k)"
  by (simp add: entries_def prune_def split: option.splits)

lemma set_conversation:
  "set (conversation st p) = set (entries st (PeerKey p)) \<union> set (entries st BroadcastKey)"
  by (simp add: conversation_def)







subsection \<open>Addressing\<close>

lemma filed_init: "filed (MessageStore_init d)"
  by (simp add: filed_def entries_def MessageStore_init_def)

lemma filed_apply_op:
  assumes "filed st" and "appends_well_keyed op"
  shows "filed (apply_op st op)"
proof (cases op)
  case (Append x)
  with assms show ?thesis by (auto simp: filed_def entries_append)
next
  case (Prune now)
  with assms show ?thesis by (auto simp: filed_def entries_prune)
qed

lemma filed_run_ops:
  assumes "filed st" and "\<forall>op\<in>set ops. appends_well_keyed op"
  shows "filed (run_ops st ops)"
  using assms unfolding run_ops_def
  by (induction ops arbitrary: st) (simp_all add: filed_apply_op)

text \<open>
  C6: take a store that starts empty and goes through any history of pruning passes
  and of appends of messages filed under their addressing's key, and any message
  \<open>sm\<close> stored in it. If \<open>sm\<close> has no recipient, it is in the conversation of every
  peer and in the broadcast view. If its recipient is \<open>x\<close>, it is not in the broadcast
  view, the only conversations that can hold it are those of \<open>x\<close> and of its sender,
  and it is in \<open>x\<close>'s conversation when outbound and in its sender's when inbound.
\<close>

theorem addressing_views:
  assumes hist: "\<forall>op\<in>set ops. appends_well_keyed op"
    and st: "st = run_ops (MessageStore_init d) ops"
    and sm: "sm \<in> set (entries st k)"
  shows "(message_recipient (stored sm) = None \<longrightarrow>
            (\<forall>p. sm \<in> set (conversation st p)) \<and> sm \<in> set (broadcast_view st))
       \<and> (\<forall>x. message_recipient (stored sm) = Some x \<longrightarrow>
            sm \<notin> set (broadcast_view st)
            \<and> (\<forall>p. sm \<in> set (conversation st p) \<longrightarrow> p = x \<or> p = message_sender (stored sm))
            \<and> (direction sm = Outbound \<longrightarrow> sm \<in> set (conversation st x))
            \<and> (direction sm = Inbound \<longrightarrow>
                  sm \<in> set (conversation st (message_sender (stored sm)))))"
proof -
  have f: "filed st"
    unfolding st using filed_init hist by (rule filed_run_ops)
  have key: "conversation_key sm = k" and wk: "well_keyed sm"
    using f sm by (auto simp: filed_def)
  have only: "sm \<in> set (entries st k') \<Longrightarrow> k' = k" for k'
    using f key by (auto simp: filed_def)
  show ?thesis
  proof (cases "message_recipient (stored sm)")
    case None
    then have "k = BroadcastKey"
      using key wk by (simp add: well_keyed_def key_for_def)
    with sm None show ?thesis
      by (simp add: set_conversation broadcast_view_def)
  next
    case (Some x)
    show ?thesis
    proof (cases "direction sm")
      case Inbound
      then have k: "k = PeerKey (message_sender (stored sm))"
        using key wk Some by (simp add: well_keyed_def key_for_def)
      show ?thesis
        using sm Some Inbound k only by (auto simp: set_conversation broadcast_view_def)
    next
      case Outbound
      then have k: "k = PeerKey x"
        using key wk Some by (simp add: well_keyed_def key_for_def)
      show ?thesis
        using sm Some Outbound k only by (auto simp: set_conversation broadcast_view_def)
    qed
  qed
qed

theorem addressing_views_witness:
  "hello \<in> set (conversation (run_ops (MessageStore_init 7) [Append hello, Append notice]) ''B1'')
   \<and> hello \<notin> set (conversation (run_ops (MessageStore_init 7) [Append hello, Append notice]) ''C1'')
   \<and> hello \<notin> set (broadcast_view (run_ops (MessageStore_init 7) [Append hello, Append notice]))
   \<and> notice \<in> set (conversation (run_ops (MessageStore_init 7) [Append hello, Append notice]) ''C1'')
   \<and> notice \<in> set (broadcast_view (run_ops (MessageStore_init 7) [Append hello, Append notice]))"
proof -
  let ?ops = "[Append hello, Append notice]"
  let ?st = "run_ops (MessageStore_init 7) ?ops"
  have wk: "\<forall>op\<in>set ?ops. appends_well_keyed op"
    by (simp add: well_keyed_def hello_def notice_def stored_message_def)
  have h: "hello \<in> set (entries ?st (PeerKey ''B1''))"
    by (simp add: run_ops_def entries_append hello_def notice_def stored_message_def key_for_def
        TextMessage_init_def)
  have n: "notice \<in> set (entries ?st BroadcastKey)"
    by (simp add: run_ops_def entries_append hello_def notice_def stored_message_def key_for_def
        TextMessage_init_def)
  have rh: "message_recipient (stored hello) = Some ''B1''" "direction hello = Outbound"
    "message_sender (stored hello) = ''A1''"
    by (simp_all add: hello_def stored_message_def TextMessage_init_def)
  have rn: "message_recipient (stored notice) = None"
    by (simp add: notice_def stored_message_def TextMessage_init_def)
  from addressing_views [OF wk refl h] rh
  have "hello \<in> set (conversation ?st ''B1'')" "hello \<notin> set (conversation ?st ''C1'')"
    "hello \<notin> set (broadcast_view ?st)"
    by auto
  moreover from addressing_views [OF wk refl n] rn
  have "notice \<in> set (conversation ?st ''C1'')" "notice \<in> set (broadcast_view ?st)"
    by auto
  ultimately show ?thesis by simp
qed

subsection \<open>Messages are never written\<close>

lemma manager_apply_app_op: "message_manager (apply_app_op h app op) = message_manager app"
  by (cases op)
     (simp_all add: send_message_def queue_message_def message_loop_body_idle Let_def)

lemma manager_run_app: "message_manager (run_app h app ops) = message_manager app"
  unfolding run_app_def
  by (induction ops arbitrary: app) (simp_all add: manager_apply_app_op)

lemma entries_apply_op:
  "set (entries (apply_op st op) k) \<subseteq> set (entries st k) \<union> appended op"
  by (cases op) (auto simp: entries_append entries_prune)

lemma entries_run_ops:
  "set (entries (run_ops st ops) k) \<subseteq> set (entries st k) \<union> (\<Union>op\<in>set ops. appended op)"
  unfolding run_ops_def
proof (induction ops arbitrary: st)
  case Nil
  show ?case by simp
next
  case (Cons op ops)
  have "set (entries (foldl apply_op (apply_op st op) ops) k)
      \<subseteq> set (entries (apply_op st op) k) \<union> (\<Union>op\<in>set ops. appended op)"
    by (rule Cons.IH)
  also have "\<dots> \<subseteq> (set (entries st k) \<union> appended op) \<union> (\<Union>op\<in>set ops. appended op)"
    using entries_apply_op [of st op k] by blast
  finally show ?case by auto
qed

text \<open>
  A \<^verbatim>\<open>TextMessage\<close> is not immutable: assigning to the content of the scenario's
  message, after its construction, succeeds and gives a different message.
\<close>

theorem message_assignment_counterexample:
  "content (assign_attribute (TextMessage_init 1000 ''A1'' ''hello'' (Some ''B1''))
      (SetContent ''changed'')) = ''changed''
   \<and> assign_attribute (TextMessage_init 1000 ''A1'' ''hello'' (Some ''B1''))
      (SetContent ''changed'') \<noteq> TextMessage_init 1000 ''A1'' ''hello'' (Some ''B1'')"
  by (simp add: TextMessage_init_def)

text \<open>
  C8, as the code has it: the class lets its fields be assigned, but no operation of the system
  assigns one. The source assigns the fields of a message in
  \<^verbatim>\<open>TextMessage.__init__\<close> and nowhere else. Queueing hands the message and the
  manager back as they were; displaying a message or a conversation hands the messages
  back as they were; a conversation lookup leaves the manager, and with it the store,
  as it was; and every history of sends, passes of the message loop and displays leaves
  the manager, and so every conversation of its store, as it was. In the store, an
  append adds the new entry at the end of one sequence and leaves every other entry in
  place, and a pruning pass leaves of every sequence and of every conversation a
  subsequence: the entries that remain are the entries that were there, in their
  order. After any history of appends and pruning passes, every entry of a sequence or
  of a conversation is one that was there before or one that the history appended.
\<close>

theorem messages_never_changed:
  "queue_message mgr m = (mgr, m)
   \<and> snd (display_message w t) = t
   \<and> snd (show_conversation w ts) = ts
   \<and> snd (get_conversation mgr p) = mgr
   \<and> set (fst (get_conversation mgr p))
       = set (entries (messages mgr) (PeerKey p)) \<union> set (entries (messages mgr) BroadcastKey)
   \<and> message_manager (run_app h app aops) = message_manager app
   \<and> conversation (messages (message_manager (run_app h app aops))) p
       = conversation (messages (message_manager app)) p
   \<and> entries (append_store st sm) k
       = (if k = conversation_key sm then entries st k @ [sm] else entries st k)
   \<and> subseq (entries (prune st now) k) (entries st k)
   \<and> subseq (conversation (prune st now) p) (conversation st p)
   \<and> set (entries (run_ops st ops) k) \<subseteq> set (entries st k) \<union> (\<Union>op\<in>set ops. appended op)
   \<and> set (conversation (run_ops st ops) p)
       \<subseteq> set (conversation st p) \<union> (\<Union>op\<in>set ops. appended op)"
proof -
  have "subseq (entries (prune st now) k') (entries st k')" for k'
    by (simp add: entries_prune)
  then have sub: "subseq (conversation (prune st now) p) (conversation st p)"
    unfolding conversation_def by (intro list_emb_append_mono)
  have conv: "set (conversation (run_ops st ops) p)
      \<subseteq> set (conversation st p) \<union> (\<Union>op\<in>set ops. appended op)"
    unfolding set_conversation
    using entries_run_ops [of st ops "PeerKey p"] entries_run_ops [of st ops BroadcastKey]
    by blast
  show ?thesis
    using sub conv entries_run_ops [of st ops k]
    by (simp add: queue_message_def display_message_def show_conversation_def
        get_conversation_def set_conversation entries_append entries_prune manager_run_app)
qed

text \<open>
  A store history and an application history at concrete values: the conversation of
  \<^verbatim>\<open>B1\<close> holds nothing but the two appended messages, and the manager after a send, a
  pass of the loop and a display is the manager the application was built with.
\<close>

theorem messages_never_changed_witness:
  "set (conversation (run_ops (MessageStore_init 7) [Append hello, Prune 605801, Append notice]) ''B1'')
     \<subseteq> {hello, notice}
   \<and> message_manager (run_app (\<lambda>a c. a) (WiFiMeshApp_init AppConfig_default \<lparr>device_id = ''A1''\<rparr>)
        [Send 1000 ''hello'' (Some ''B1''), LoopPass,
         Display (TextMessage_init 1000 ''A1'' ''hello'' (Some ''B1''))])
     = MessageManager_init \<lparr>device_id = ''A1''\<rparr> 7"
proof -
  let ?app = "WiFiMeshApp_init AppConfig_default \<lparr>device_id = ''A1''\<rparr>"
  let ?aops = "[Send 1000 ''hello'' (Some ''B1''), LoopPass,
         Display (TextMessage_init 1000 ''A1'' ''hello'' (Some ''B1''))]"
  let ?st = "MessageStore_init 7"
  let ?ops = "[Append hello, Prune 605801, Append notice]"
  note all = messages_never_changed [where p = "''B1''" and h = "\<lambda>a c. a" and app = ?app
      and aops = ?aops and st = ?st and ops = ?ops and mgr = "message_manager ?app"
      and m = "stored hello" and w = "message_widget ?app"
      and t = "TextMessage_init 1000 ''A1'' ''hello'' (Some ''B1'')" and ts = "[]"
      and sm = hello and k = BroadcastKey and now = 605801]
  from all have "message_manager (run_app (\<lambda>a c. a) ?app ?aops) = message_manager ?app"
    by (elim conjE)
  then have app: "message_manager (run_app (\<lambda>a c. a) ?app ?aops)
      = MessageManager_init \<lparr>device_id = ''A1''\<rparr> 7"
    by (simp add: WiFiMeshApp_init_def AppConfig_default_def)
  from all have "set (conversation (run_ops ?st ?ops) ''B1'')
      \<subseteq> set (conversation ?st ''B1'') \<union> (\<Union>op\<in>set ?ops. appended op)"
    by (elim conjE)
  moreover have "set (conversation ?st ''B1'') \<union> (\<Union>op\<in>set ?ops. appended op) = {hello, notice}"
    by (auto simp: conversation_def entries_def MessageStore_init_def)
  ultimately have "set (conversation (run_ops ?st ?ops) ''B1'') \<subseteq> {hello, notice}"
    by (simp only:)
  with app show ?thesis by (simp only: simp_thms)
qed

subsection \<open>Sessions\<close>

lemma ordered_keys_commute: "ordered_keys a b = ordered_keys b a"
  by (auto simp: ordered_keys_def)

lemma cache_sound_init: "cache_sound agree kdf (SessionManager_init me)"
  by (simp add: cache_sound_def SessionManager_init_def)

lemma cache_sound_step:
  assumes "cache_sound agree kdf mgr"
  shows "cache_sound agree kdf (snd (get_or_create_session agree kdf mgr now peer pk))"
  using assms
  by (auto simp: cache_sound_def get_or_create_session_def Let_def
      split: option.splits if_splits)

lemma session_key:
  assumes "cache_sound agree kdf mgr"
    and "fst (get_or_create_session agree kdf mgr now peer pk) = Inr s"
  shows "shared_secret s = derive_key agree kdf (identity mgr) pk"
  using assms
  by (auto simp: cache_sound_def get_or_create_session_def Let_def
      split: option.splits if_splits)

text \<open>
  C4: let the agreement be a Diffie-Hellman one (what one side computes from its
  private key and the other's public key is what the other side computes), let the
  public key of each of two identities be the one that belongs to its private key,
  and let the caches of their two session managers be sound (as the empty cache is,
  and as \<^verbatim>\<open>get_or_create_session\<close> keeps them). When each manager returns a session
  for the other identity's public key, the two sessions hold the same symmetric key,
  at whatever times the calls are made.
\<close>

theorem session_keys_agree:
  assumes dh: "\<forall>x y. agree x (public_of y) = agree y (public_of x)"
    and A: "public_key (identity mA) = public_of (private_key (identity mA))"
    and B: "public_key (identity mB) = public_of (private_key (identity mB))"
    and cA: "cache_sound agree kdf mA" and cB: "cache_sound agree kdf mB"
    and sA: "fst (get_or_create_session agree kdf mA tA (identity_id (identity mB))
                    (public_key (identity mB))) = Inr sA"
    and sB: "fst (get_or_create_session agree kdf mB tB (identity_id (identity mA))
                    (public_key (identity mA))) = Inr sB"
  shows "shared_secret sA = shared_secret sB"
proof -
  have "shared_secret sA = derive_key agree kdf (identity mA) (public_key (identity mB))"
    using cA sA by (rule session_key)
  moreover
  have "shared_secret sB = derive_key agree kdf (identity mB) (public_key (identity mA))"
    using cB sB by (rule session_key)
  moreover
  have "agree (private_key (identity mA)) (public_key (identity mB))
          = agree (private_key (identity mB)) (public_key (identity mA))"
    using dh A B by simp
  ultimately show ?thesis
    by (simp add: derive_key_def ordered_keys_commute [of "public_key (identity mA)"])
qed

text \<open>
  With the toy agreement, \<open>alice\<close> and \<open>bob\<close>, each starting from an empty cache, derive
  the same key.
\<close>

theorem session_keys_agree_witness:
  "\<exists>sA sB.
     fst (get_or_create_session toy_agree toy_kdf (SessionManager_init alice) 10 ''B1''
            (public_key bob)) = Inr sA
     \<and> fst (get_or_create_session toy_agree toy_kdf (SessionManager_init bob) 20 ''A1''
            (public_key alice)) = Inr sB
     \<and> shared_secret sA = shared_secret sB
     \<and> shared_secret sA = [32768, 8, 32]"
proof -
  let ?mA = "SessionManager_init alice" and ?mB = "SessionManager_init bob"
  define sA where "sA = \<lparr>peer_id = ''B1'', shared_secret = [32768, 8, 32::nat],
    created_at = 10, send_counter = 0, recv_high_watermark = 0\<rparr>"
  define sB where "sB = \<lparr>peer_id = ''A1'', shared_secret = [32768, 8, 32::nat],
    created_at = 20, send_counter = 0, recv_high_watermark = 0\<rparr>"
  have dh: "\<forall>x y. toy_agree x (toy_public y) = toy_agree y (toy_public x)"
    by (simp add: toy_agree_def toy_public_def power_mult [symmetric] mult.commute)
  have A: "public_key (identity ?mA) = toy_public (private_key (identity ?mA))"
    and B: "public_key (identity ?mB) = toy_public (private_key (identity ?mB))"
    by (simp_all add: SessionManager_init_def alice_def bob_def)
  have a: "fst (get_or_create_session toy_agree toy_kdf ?mA 10 (identity_id (identity ?mB))
      (public_key (identity ?mB))) = Inr sA"
    by (simp add: get_or_create_session_def SessionManager_init_def alice_def bob_def sA_def
        derive_key_def ordered_keys_def toy_agree_def toy_public_def toy_kdf_def Let_def)
  have b: "fst (get_or_create_session toy_agree toy_kdf ?mB 20 (identity_id (identity ?mA))
      (public_key (identity ?mA))) = Inr sB"
    by (simp add: get_or_create_session_def SessionManager_init_def alice_def bob_def sB_def
        derive_key_def ordered_keys_def toy_agree_def toy_public_def toy_kdf_def Let_def)
  have eq: "shared_secret sA = shared_secret sB"
    using dh A B cache_sound_init cache_sound_init a b by (rule session_keys_agree)
  have ids: "identity_id (identity ?mB) = ''B1''" "identity_id (identity ?mA) = ''A1''"
    "public_key (identity ?mB) = public_key bob" "public_key (identity ?mA) = public_key alice"
    by (simp_all add: SessionManager_init_def alice_def bob_def)
  show ?thesis
    using a b eq unfolding ids by (intro exI [of _ sA] exI [of _ sB]) (simp add: sA_def)
qed

subsection \<open>Replay\<close>

text \<open>
  C3: whatever the cipher, when \<^verbatim>\<open>decrypt\<close> accepts an envelope and the same envelope
  is submitted again to the session as the first call left it, the second call fails
  with \<open>ReplayDetected\<close>. An envelope whose counter does not exceed the high watermark
  is never accepted, and it is rejected with \<open>ReplayDetected\<close> when its tag verifies.
\<close>

theorem anti_replay:
  "(decrypt f s e = Inr (p, s') \<longrightarrow> decrypt f s' e = Inl ReplayDetected)
   \<and> (nonce_counter (nonce e) \<le> recv_high_watermark s \<longrightarrow>
        decrypt f s e = Inl ReplayDetected \<or> decrypt f s e = Inl AuthenticationFailed)
   \<and> (nonce_counter (nonce e) \<le> recv_high_watermark s
        \<and> f (shared_secret s) (nonce e) (sender_id e, addressing e) (ciphertext e) (auth_tag e)
            \<noteq> None
        \<longrightarrow> decrypt f s e = Inl ReplayDetected)"
  by (auto simp: decrypt_def split: option.splits if_splits)

text \<open>
  With the toy cipher: an envelope with counter 1 is accepted by a session whose
  watermark is 0, and rejected as a replay by the session that results.
\<close>

theorem anti_replay_witness:
  "decrypt toy_open
     \<lparr>peer_id = ''B1'', shared_secret = [1, 2, 3], created_at = 0, send_counter = 0,
      recv_high_watermark = 0\<rparr>
     \<lparr>sender_id = ''B1'', nonce = \<lparr>nonce_session = ''s'', nonce_counter = 1\<rparr>,
      ciphertext = [9], auth_tag = [1, 2, 3], addressing = Some ''A1''\<rparr>
   = Inr ([9], \<lparr>peer_id = ''B1'', shared_secret = [1, 2, 3], created_at = 0, send_counter = 0,
      recv_high_watermark = 1\<rparr>)
   \<and> decrypt toy_open
     \<lparr>peer_id = ''B1'', shared_secret = [1, 2, 3], created_at = 0, send_counter = 0,
      recv_high_watermark = 1\<rparr>
     \<lparr>sender_id = ''B1'', nonce = \<lparr>nonce_session = ''s'', nonce_counter = 1\<rparr>,
      ciphertext = [9], auth_tag = [1, 2, 3], addressing = Some ''A1''\<rparr>
   = Inl ReplayDetected"
proof -
  let ?s = "\<lparr>peer_id = ''B1'', shared_secret = [1, 2, 3::nat], created_at = 0, send_counter = 0,
      recv_high_watermark = 0\<rparr>"
  let ?s' = "\<lparr>peer_id = ''B1'', shared_secret = [1, 2, 3::nat], created_at = 0, send_counter = 0,
      recv_high_watermark = 1\<rparr>"
  let ?e = "\<lparr>sender_id = ''B1'', nonce = \<lparr>nonce_session = ''s'', nonce_counter = 1\<rparr>,
      ciphertext = [9::nat], auth_tag = [1, 2, 3::nat], addressing = Some ''A1''\<rparr>"
  have first: "decrypt toy_open ?s ?e = Inr ([9], ?s')"
    by (simp add: decrypt_def toy_open_def)
  with anti_replay [of toy_open ?s ?e "[9]" ?s']
  have "decrypt toy_open ?s' ?e = Inl ReplayDetected"
    by blast
  with first show ?thesis by simp
qed

end
